theory Spec2Isabelle
  imports Complex_Main "HOL-Library.AList"
begin

section \<open>JavaScript values used by the map application\<close>

text \<open>
  The application is the class \<open>WestCampusMap\<close> in its later revision (the one with the
  price filter, the toast and the frame-coalesced overlay update). Strings are ASCII
  strings. A JavaScript number is either not-a-number, an infinity, or a finite value;
  finite values are kept as exact rationals (every finite double is one), and negative zero
  is identified with zero, which no comparison in the program distinguishes.
\<close>

datatype jsnum = NaN | NegInf | Fin rat | PosInf

text \<open>The values a listing field or a filter threshold can hold.\<close>

datatype jsval = JUndefined | JNull | JBool bool | JNum jsnum | JStr string

datatype error = TypeError

text \<open>Truthiness, as tested by \<open>if (x)\<close>, \<open>!x\<close> and \<open>x ? a : b\<close>.\<close>

fun truthy :: "jsval \<Rightarrow> bool" where
  "truthy JUndefined = False"
| "truthy JNull = False"
| "truthy (JBool b) = b"
| "truthy (JNum NaN) = False"
| "truthy (JNum (Fin q)) = (q \<noteq> 0)"
| "truthy (JNum NegInf) = True"
| "truthy (JNum PosInf) = True"
| "truthy (JStr s) = (s \<noteq> [])"

text \<open>The relational operator \<open><=\<close> on two numbers: false as soon as one side is NaN.\<close>

fun js_le :: "jsnum \<Rightarrow> jsnum \<Rightarrow> bool" where
  "js_le NaN _ = False"
| "js_le _ NaN = False"
| "js_le NegInf _ = True"
| "js_le (Fin a) NegInf = False"
| "js_le (Fin a) (Fin b) = (a \<le> b)"
| "js_le (Fin a) PosInf = True"
| "js_le PosInf PosInf = True"
| "js_le PosInf _ = False"

text \<open>\<open>Number.isFinite\<close>: true only for a value of type number that is finite.\<close>

fun isFinite :: "jsval \<Rightarrow> bool" where
  "isFinite (JNum (Fin q)) = True"
| "isFinite _ = False"

subsection \<open>Characters and digits\<close>

definition isWhiteSpace :: "char \<Rightarrow> bool" where
  "isWhiteSpace c = (of_char c \<in> {9, 10, 11, 12, 13, 32 :: nat})"

definition isDecimalDigit :: "char \<Rightarrow> bool" where
  "isDecimalDigit c = (48 \<le> (of_char c :: nat) \<and> (of_char c :: nat) \<le> 57)"

text \<open>The value of a character as a digit in radix \<open>r\<close>, if it is one.\<close>

definition digitValue :: "nat \<Rightarrow> char \<Rightarrow> nat option" where
  "digitValue r c =
     (let n = (of_char c :: nat);
          v = (if 48 \<le> n \<and> n \<le> 57 then Some (n - 48)
               else if 97 \<le> n \<and> n \<le> 122 then Some (n - 87)
               else if 65 \<le> n \<and> n \<le> 90 then Some (n - 55)
               else None)
      in case v of None \<Rightarrow> None | Some d \<Rightarrow> if d < r then Some d else None)"

definition isRadixDigit :: "nat \<Rightarrow> char \<Rightarrow> bool" where
  "isRadixDigit r c = (digitValue r c \<noteq> None)"

text \<open>The number a digit string denotes in radix \<open>r\<close>, most significant digit first.\<close>

definition digitsValue :: "nat \<Rightarrow> string \<Rightarrow> nat" where
  "digitsValue r ds = foldl (\<lambda>acc c. acc * r + (case digitValue r c of Some d \<Rightarrow> d | None \<Rightarrow> 0)) 0 ds"

subsection \<open>\<open>parseInt\<close> with no radix argument\<close>

text \<open>
  Leading white space is skipped, one sign is read, a \<open>0x\<close> or \<open>0X\<close> prefix selects radix
  16, and the longest prefix of digits is the result; NaN when that prefix is empty.
\<close>

definition parseInt :: "string \<Rightarrow> jsnum" where
  "parseInt str =
     (let s = dropWhile isWhiteSpace str;
          sign = (case s of c # _ \<Rightarrow> if c = CHR ''-'' then (-1 :: int) else 1 | [] \<Rightarrow> 1);
          s1 = (case s of c # t \<Rightarrow> if c = CHR ''-'' \<or> c = CHR ''+'' then t else s | [] \<Rightarrow> s);
          hex = (case s1 of c0 # c1 # _ \<Rightarrow> c0 = CHR ''0'' \<and> (c1 = CHR ''x'' \<or> c1 = CHR ''X'')
                          | _ \<Rightarrow> False);
          R = (if hex then 16 else 10);
          s2 = (if hex then drop 2 s1 else s1);
          Z = takeWhile (isRadixDigit R) s2
      in if Z = [] then NaN else Fin (of_int (sign * int (digitsValue R Z))))"

subsection \<open>Unary plus: conversion to a number\<close>

text \<open>
  The numeric literal grammar of string-to-number conversion: surrounding white space is
  dropped, the empty string is 0, then either a signed decimal literal (\<open>Infinity\<close>, digits
  with an optional fraction and exponent) or an unsigned binary, octal or hexadecimal
  integer. The value is the exact one; rounding to a double and overflow to an infinity
  are not modelled.
\<close>

definition trimWS :: "string \<Rightarrow> string" where
  "trimWS s = rev (dropWhile isWhiteSpace (rev (dropWhile isWhiteSpace s)))"

definition allDigits :: "nat \<Rightarrow> string \<Rightarrow> bool" where
  "allDigits r ds = (ds \<noteq> [] \<and> list_all (isRadixDigit r) ds)"

definition scale10 :: "rat \<Rightarrow> int \<Rightarrow> rat" where
  "scale10 m e = (if 0 \<le> e then m * 10 ^ nat e else m / 10 ^ nat (- e))"

text \<open>The exponent part, \<open>e\<close> or \<open>E\<close> followed by a signed integer; empty means exponent 0.\<close>

definition exponentPart :: "string \<Rightarrow> int option" where
  "exponentPart s =
     (case s of
        [] \<Rightarrow> Some 0
      | c # t \<Rightarrow>
          if c = CHR ''e'' \<or> c = CHR ''E'' then
            (case t of
               [] \<Rightarrow> None
             | d # u \<Rightarrow>
                 if d = CHR ''-'' then (if allDigits 10 u then Some (- int (digitsValue 10 u)) else None)
                 else if d = CHR ''+'' then (if allDigits 10 u then Some (int (digitsValue 10 u)) else None)
                 else (if allDigits 10 t then Some (int (digitsValue 10 t)) else None))
          else None)"

definition unsignedDecimal :: "string \<Rightarrow> jsnum" where
  "unsignedDecimal s =
     (if s = ''Infinity'' then PosInf
      else
        let ip = takeWhile isDecimalDigit s;
            r1 = dropWhile isDecimalDigit s;
            dot = (case r1 of c # _ \<Rightarrow> c = CHR ''.'' | [] \<Rightarrow> False);
            fp = (if dot then takeWhile isDecimalDigit (tl r1) else []);
            r2 = (if dot then dropWhile isDecimalDigit (tl r1) else r1)
        in if ip = [] \<and> fp = [] then NaN
           else case exponentPart r2 of
                  None \<Rightarrow> NaN
                | Some e \<Rightarrow>
                    Fin (scale10 (of_nat (digitsValue 10 ip)
                                 + of_nat (digitsValue 10 fp) / 10 ^ length fp) e))"

fun negate :: "jsnum \<Rightarrow> jsnum" where
  "negate NaN = NaN"
| "negate NegInf = PosInf"
| "negate PosInf = NegInf"
| "negate (Fin q) = Fin (- q)"

definition stringToNumber :: "string \<Rightarrow> jsnum" where
  "stringToNumber str =
     (let s = trimWS str in
      case s of
        [] \<Rightarrow> Fin 0
      | c # t \<Rightarrow>
          if c = CHR ''+'' then unsignedDecimal t
          else if c = CHR ''-'' then negate (unsignedDecimal t)
          else if c = CHR ''0'' \<and> t \<noteq> [] \<and> hd t \<in> {CHR ''x'', CHR ''X''} then
            (if allDigits 16 (tl t) then Fin (of_nat (digitsValue 16 (tl t))) else NaN)
          else if c = CHR ''0'' \<and> t \<noteq> [] \<and> hd t \<in> {CHR ''o'', CHR ''O''} then
            (if allDigits 8 (tl t) then Fin (of_nat (digitsValue 8 (tl t))) else NaN)
          else if c = CHR ''0'' \<and> t \<noteq> [] \<and> hd t \<in> {CHR ''b'', CHR ''B''} then
            (if allDigits 2 (tl t) then Fin (of_nat (digitsValue 2 (tl t))) else NaN)
          else unsignedDecimal s)"

fun toNumber :: "jsval \<Rightarrow> jsnum" where
  "toNumber JUndefined = NaN"
| "toNumber JNull = Fin 0"
| "toNumber (JBool b) = (if b then Fin 1 else Fin 0)"
| "toNumber (JNum n) = n"
| "toNumber (JStr s) = stringToNumber s"

section \<open>Price filter\<close>

record priceRange =
  min_r :: jsnum
  max_r :: jsnum

text \<open>\<open>String.prototype.split\<close> with a one-character separator.\<close>

fun splitOn :: "char \<Rightarrow> string \<Rightarrow> string \<Rightarrow> string list" where
  "splitOn sep acc [] = [rev acc]"
| "splitOn sep acc (c # cs) =
     (if c = sep then rev acc # splitOn sep [] cs else splitOn sep (c # acc) cs)"

definition split :: "char \<Rightarrow> string \<Rightarrow> string list" where
  "split sep s = splitOn sep [] s"

text \<open>\<open>replace(/s/g, '')\<close> and \<open>replace(/[$,]/g, '')\<close>.\<close>

definition removeS :: "string \<Rightarrow> string" where
  "removeS s = filter (\<lambda>c. c \<noteq> CHR ''s'') s"

definition removeCurrency :: "string \<Rightarrow> string" where
  "removeCurrency s = filter (\<lambda>c. c \<noteq> CHR ''$'' \<and> c \<noteq> CHR '','') s"

definition unbounded :: priceRange where
  "unbounded = \<lparr>min_r = Fin 0, max_r = PosInf\<rparr>"

text \<open>
  \<open>parsePriceRange\<close>. A falsy argument gives the unbounded range; a truthy argument that
  is not a string has no \<open>replace\<close> method, and the call raises a TypeError.
\<close>

definition parsePriceRange :: "jsval \<Rightarrow> error + priceRange" where
  "parsePriceRange priceString =
     (if \<not> truthy priceString then Inr unbounded
      else case priceString of
        JStr str \<Rightarrow>
          (let cleanString = removeS str;
               parts = split (CHR ''-'') cleanString
           in if length parts = 1 then
                (let price = parseInt (removeCurrency (parts ! 0))
                 in Inr \<lparr>min_r = price, max_r = price\<rparr>)
              else if length parts = 2 then
                (let minPrice = parseInt (removeCurrency (parts ! 0));
                     maxPrice = parseInt (removeCurrency (parts ! 1))
                 in Inr \<lparr>min_r = minPrice, max_r = maxPrice\<rparr>)
              else Inr unbounded)
      | _ \<Rightarrow> Inl TypeError)"

text \<open>A listing record as the listings endpoint delivers it.\<close>

record listing =
  name :: string
  lat :: rat
  lon :: rat
  price_per_person :: jsval
  price_min :: jsval
  address :: string
  photo :: jsval
  notesText :: string
  website :: jsval

text \<open>
  \<open>isPriceInRange\<close>. The listing is an object of the loaded array, so the guard
  \<open>apartment &&\<close> always passes; the numeric field is used when \<open>Number.isFinite\<close>
  accepts it, otherwise the display price is parsed, and an exception of the parser
  propagates.
\<close>

definition isPriceInRange :: "listing \<Rightarrow> jsval \<Rightarrow> error + bool" where
  "isPriceInRange apartment maxPrice =
     (if \<not> truthy maxPrice then Inr True
      else
        let numericMax = toNumber maxPrice in
        if isFinite (price_min apartment) then
          Inr (js_le (toNumber (price_min apartment)) numericMax)
        else
          case parsePriceRange (price_per_person apartment) of
            Inl e \<Rightarrow> Inl e
          | Inr priceRange \<Rightarrow> Inr (js_le (min_r priceRange) numericMax))"

text \<open>
  The minimum price of a listing in the words of the specification: the numeric field when
  it is present and finite, otherwise the minimum of the parsed display price.
\<close>

definition listingMinimum :: "listing \<Rightarrow> error + jsnum" where
  "listingMinimum a =
     (case price_min a of
        JNum (Fin q) \<Rightarrow> Inr (Fin q)
      | _ \<Rightarrow> map_sum id min_r (parsePriceRange (price_per_person a)))"

text \<open>\<open>Array.prototype.filter\<close> with a predicate that may raise: the first exception ends it.\<close>

fun filterE :: "('a \<Rightarrow> error + bool) \<Rightarrow> 'a list \<Rightarrow> error + 'a list" where
  "filterE p [] = Inr []"
| "filterE p (x # xs) =
     (case p x of
        Inl e \<Rightarrow> Inl e
      | Inr b \<Rightarrow>
          (case filterE p xs of
             Inl e \<Rightarrow> Inl e
           | Inr ys \<Rightarrow> Inr (if b then x # ys else ys)))"

section \<open>Boundary data\<close>

datatype json =
    JsonNull
  | JsonBool bool
  | JsonNumber rat
  | JsonString string
  | JsonArray "json list"
  | JsonObject "(string \<times> json) list"

fun jsonTruthy :: "json \<Rightarrow> bool" where
  "jsonTruthy JsonNull = False"
| "jsonTruthy (JsonBool b) = b"
| "jsonTruthy (JsonNumber q) = (q \<noteq> 0)"
| "jsonTruthy (JsonString s) = (s \<noteq> [])"
| "jsonTruthy (JsonArray xs) = True"
| "jsonTruthy (JsonObject kvs) = True"

text \<open>
  The outcome of one \<open>fetch\<close>: the promise rejects (network failure), or it resolves to a
  response with a status; \<open>response.json()\<close> then gives the parsed body, or rejects
  (\<open>None\<close>) when the body is not JSON.
\<close>

datatype 'a response = Response (status: nat) (json: "'a option")

definition ok :: "'a response \<Rightarrow> bool" where
  "ok r = (200 \<le> status r \<and> status r \<le> 299)"

datatype 'a fetchResult = NetworkFailure | Resolved "'a response"

record network =
  fetchApartments :: "listing list fetchResult"
  fetchBoundary :: "string \<Rightarrow> json fetchResult"

definition hexDigit :: "nat \<Rightarrow> char" where
  "hexDigit n = ''0123456789ABCDEF'' ! (n mod 16)"

definition isUnreserved :: "char \<Rightarrow> bool" where
  "isUnreserved c =
     (let n = (of_char c :: nat)
      in (48 \<le> n \<and> n \<le> 57) \<or> (65 \<le> n \<and> n \<le> 90) \<or> (97 \<le> n \<and> n \<le> 122)
         \<or> c \<in> set ''-_.!~*'()'')"

definition encodeURIComponent :: "string \<Rightarrow> string" where
  "encodeURIComponent s =
     concat (map (\<lambda>c. if isUnreserved c then [c]
                       else [CHR ''%'', hexDigit (of_char c div 16), hexDigit (of_char c)]) s)"

definition boundaryUrl :: "string \<Rightarrow> string" where
  "boundaryUrl neighname =
     ''https://data.austintexas.gov/resource/a7ap-j2yt.geojson?neighname=''
       @ encodeURIComponent neighname"

definition getFallbackNeighborhoodData :: "string \<Rightarrow> json" where
  "getFallbackNeighborhoodData neighname =
     JsonObject
       [(''type'', JsonString ''FeatureCollection''),
        (''features'',
           JsonArray
             [JsonObject
                [(''type'', JsonString ''Feature''),
                 (''properties'', JsonObject [(''neighname'', JsonString neighname)]),
                 (''geometry'',
                    JsonObject
                      [(''type'', JsonString ''MultiPolygon''),
                       (''coordinates'', JsonArray [JsonArray [JsonArray []]])])]])]"

text \<open>
  \<open>getNeighborhoodData\<close>. The result is a sum so that an escaping exception would be
  visible as \<open>Inl\<close>; the \<open>try\<close>/\<open>catch\<close> covers the fetch, the status test and the parse.
\<close>

definition getNeighborhoodData :: "network \<Rightarrow> string \<Rightarrow> error + json" where
  "getNeighborhoodData net neighname =
     (case fetchBoundary net (boundaryUrl neighname) of
        NetworkFailure \<Rightarrow> Inr (getFallbackNeighborhoodData neighname)
      | Resolved response \<Rightarrow>
          if ok response then
            (case json response of
               Some data \<Rightarrow> Inr data
             | None \<Rightarrow> Inr (getFallbackNeighborhoodData neighname))
          else Inr (getFallbackNeighborhoodData neighname))"

text \<open>A fetch has failed when it rejected, answered with a non-ok status, or sent no JSON.\<close>

fun fetchFailed :: "'a fetchResult \<Rightarrow> bool" where
  "fetchFailed NetworkFailure = True"
| "fetchFailed (Resolved r) = (\<not> ok r \<or> json r = None)"


section \<open>Application state\<close>

text \<open>
  A marker is one \<open>g.apartment-marker\<close> element of the overlay group: its bound datum, the
  \<open>selected\<close> class and the translation set by the last render. The marker list is kept in
  the order of the merged selection; the order of the siblings in the document is not
  modelled. The detail panel shows the empty-state placeholder or the details of a listing;
  \<open>infoPanel\<close> is \<open>None\<close> when the page has no \<open>#infoPanelContent\<close> element.
\<close>

record marker =
  datum :: listing
  selected :: bool
  transform :: "rat \<times> rat"

datatype panel = EmptyState | Details listing

datatype frameCallback = OverlayUpdate | ToastShow

text \<open>
  The fields of \<open>WestCampusMap\<close>, together with what the program changes outside the
  object: the markers, the panel, the toasts shown, the browser's list of animation-frame
  callbacks with its handle counter, the map's projection \<open>latLngToLayerPoint\<close>, and the
  number of times the overlay has been repositioned.
\<close>

record app =
  apartments :: "listing list"
  westUniversityNeighborhood :: "json option"
  utCampusNeighborhood :: "json option"
  neighborhoodLayers :: "(string \<times> json) list"
  distanceOverlay :: "nat list option"
  distanceOverlayShown :: bool
  currentPriceFilter :: jsval
  scheduleUpdate :: "nat option"
  markers :: "marker list"
  infoPanel :: "panel option"
  toasts :: "string list"
  latLngToLayerPoint :: "rat \<Rightarrow> rat \<Rightarrow> rat \<times> rat"
  rafCounter :: nat
  rafQueue :: "frameCallback list"
  overlayRepositions :: nat

text \<open>The object as the constructor leaves it before \<open>init\<close>, on a page with a panel.\<close>

definition newApp :: "(rat \<Rightarrow> rat \<Rightarrow> rat \<times> rat) \<Rightarrow> app" where
  "newApp proj =
     \<lparr>apartments = [], westUniversityNeighborhood = None, utCampusNeighborhood = None,
      neighborhoodLayers = [], distanceOverlay = None, distanceOverlayShown = False,
      currentPriceFilter = JNull, scheduleUpdate = None, markers = [],
      infoPanel = Some EmptyState, toasts = [], latLngToLayerPoint = proj,
      rafCounter = 0, rafQueue = [], overlayRepositions = 0\<rparr>"

subsection \<open>Marker renderer\<close>

text \<open>
  The keyed data join of \<open>selectAll('.apartment-marker').data(apartments, d => d.name)\<close>
  followed by \<open>enter().append\<close>, \<open>merge\<close>, the \<open>transform\<close> attribute and
  \<open>exit().remove()\<close>. For each datum in order: the first existing marker whose old datum has
  the same key is rebound to the datum and its key is used up (later data with that key
  enter as new markers); without such a marker a new unselected one is created. Markers
  that no datum claims are removed, so they do not appear in the result.
\<close>

fun joinByName :: "(rat \<Rightarrow> rat \<Rightarrow> rat \<times> rat) \<Rightarrow> marker list \<Rightarrow> listing list \<Rightarrow> marker list" where
  "joinByName proj nodes [] = []"
| "joinByName proj nodes (d # ds) =
     (case find (\<lambda>m. name (datum m) = name d) nodes of
        Some m \<Rightarrow>
          m\<lparr>datum := d, transform := proj (lat d) (lon d)\<rparr>
            # joinByName proj (filter (\<lambda>m. name (datum m) \<noteq> name d) nodes) ds
      | None \<Rightarrow>
          \<lparr>datum = d, selected = False, transform = proj (lat d) (lon d)\<rparr>
            # joinByName proj nodes ds)"

definition renderMarkers :: "listing list \<Rightarrow> app \<Rightarrow> app" where
  "renderMarkers apts st =
     (if apts = [] then st\<lparr>markers := []\<rparr>
      else st\<lparr>markers := joinByName (latLngToLayerPoint st) (markers st) apts\<rparr>)"

text \<open>
  \<open>renderApartments\<close> of the earlier revisions (\<open>static/app.js\<close>): no filter, and an empty
  listing array returns before the join.
\<close>

definition renderApartments :: "app \<Rightarrow> app" where
  "renderApartments st =
     (if apartments st = [] then st
      else st\<lparr>markers := joinByName (latLngToLayerPoint st) (markers st) (apartments st)\<rparr>)"

definition getFilteredApartments :: "app \<Rightarrow> error + listing list" where
  "getFilteredApartments st =
     (if apartments st = [] then Inr []
      else if truthy (currentPriceFilter st) then
        filterE (\<lambda>apartment. isPriceInRange apartment (currentPriceFilter st)) (apartments st)
      else Inr (apartments st))"

subsection \<open>Selection and detail panel\<close>

definition updateInfoPanel :: "listing option \<Rightarrow> app \<Rightarrow> app" where
  "updateInfoPanel selectedApartment st =
     (case infoPanel st of
        None \<Rightarrow> st
      | Some _ \<Rightarrow>
          (case selectedApartment of
             Some a \<Rightarrow> st\<lparr>infoPanel := Some (Details a)\<rparr>
           | None \<Rightarrow> st\<lparr>infoPanel := Some EmptyState\<rparr>))"

definition selectApartment :: "listing \<Rightarrow> app \<Rightarrow> app" where
  "selectApartment apartment st =
     (let st1 = updateInfoPanel (Some apartment) st;
          st2 = st1\<lparr>markers := map (\<lambda>m. m\<lparr>selected := False\<rparr>) (markers st1)\<rparr>
      in st2\<lparr>markers :=
               map (\<lambda>m. if name (datum m) = name apartment then m\<lparr>selected := True\<rparr> else m)
                   (markers st2)\<rparr>)"

definition clearSelection :: "app \<Rightarrow> app" where
  "clearSelection st =
     updateInfoPanel None (st\<lparr>markers := map (\<lambda>m. m\<lparr>selected := False\<rparr>) (markers st)\<rparr>)"

subsection \<open>Rendering the map\<close>

definition renderNeighborhoods :: "app \<Rightarrow> app" where
  "renderNeighborhoods st =
     (let l1 = (case westUniversityNeighborhood st of
                  Some d \<Rightarrow> if jsonTruthy d
                            then AList.update ''westUniversity'' d (neighborhoodLayers st)
                            else neighborhoodLayers st
                | None \<Rightarrow> neighborhoodLayers st);
          l2 = (case utCampusNeighborhood st of
                  Some d \<Rightarrow> if jsonTruthy d then AList.update ''utCampus'' d l1 else l1
                | None \<Rightarrow> l1)
      in st\<lparr>neighborhoodLayers := l2\<rparr>)"

text \<open>
  Which layers the map shows is not modelled beyond the distance overlay: a rebuilt overlay
  is not on the map. The three rings are built widest first.
\<close>

definition renderDistanceOverlay :: "app \<Rightarrow> app" where
  "renderDistanceOverlay st =
     st\<lparr>distanceOverlay := Some (rev [400, 800, 1200]), distanceOverlayShown := False\<rparr>"

text \<open>
  \<open>renderMap\<close>. The first component is the exception that ended the pass, if any, and the
  second the state reached by then.
\<close>

definition renderMap :: "app \<Rightarrow> error option \<times> app" where
  "renderMap st =
     (let st1 = renderNeighborhoods st;
          st2 = renderDistanceOverlay st1
      in case getFilteredApartments st2 of
           Inl e \<Rightarrow> (Some e, st2)
         | Inr apts \<Rightarrow> (None, updateInfoPanel None (renderMarkers apts st2)))"

subsection \<open>Animation frames, toast and overlay update\<close>

text \<open>The handle is the incremented counter of the document, hence never zero.\<close>

definition requestAnimationFrame :: "frameCallback \<Rightarrow> app \<Rightarrow> nat \<times> app" where
  "requestAnimationFrame cb st =
     (let h = rafCounter st + 1
      in (h, st\<lparr>rafCounter := h, rafQueue := rafQueue st @ [cb]\<rparr>))"

text \<open>\<open>showToast\<close>; the timers that take the toast away again are not modelled.\<close>

definition showToast :: "string \<Rightarrow> app \<Rightarrow> app" where
  "showToast message st = snd (requestAnimationFrame ToastShow (st\<lparr>toasts := toasts st @ [message]\<rparr>))"

definition updateOverlay :: "app \<Rightarrow> app" where
  "updateOverlay st =
     (if (case scheduleUpdate st of Some h \<Rightarrow> h \<noteq> 0 | None \<Rightarrow> False) then st
      else
        let (h, st1) = requestAnimationFrame OverlayUpdate st
        in st1\<lparr>scheduleUpdate := Some h\<rparr>)"

text \<open>
  The callback scheduled by \<open>updateOverlay\<close>: the flag is cleared first, then the overlay is
  repositioned and the markers are rendered; an exception of the filter ends the callback.
\<close>

definition overlayCallback :: "app \<Rightarrow> app" where
  "overlayCallback st =
     (let st1 = st\<lparr>scheduleUpdate := None\<rparr>;
          st2 = st1\<lparr>overlayRepositions := overlayRepositions st1 + 1\<rparr>
      in case getFilteredApartments st2 of
           Inl e \<Rightarrow> st2
         | Inr apts \<Rightarrow> renderMarkers apts st2)"

fun runFrameCallback :: "frameCallback \<Rightarrow> app \<Rightarrow> app" where
  "runFrameCallback OverlayUpdate st = overlayCallback st"
| "runFrameCallback ToastShow st = st"

text \<open>
  One animation frame of the browser: the callbacks registered so far are taken off the
  list and run in order.
\<close>

definition animationFrame :: "app \<Rightarrow> app" where
  "animationFrame st = foldl (\<lambda>s cb. runFrameCallback cb s) (st\<lparr>rafQueue := []\<rparr>) (rafQueue st)"

subsection \<open>Price filter on the state\<close>

definition filterByPrice :: "jsval \<Rightarrow> app \<Rightarrow> error option \<times> app" where
  "filterByPrice maxPrice st =
     (let st1 = st\<lparr>currentPriceFilter :=
                     (if truthy maxPrice then JNum (toNumber maxPrice) else JNull)\<rparr>
      in case filterE (\<lambda>apartment. isPriceInRange apartment (currentPriceFilter st1))
                      (apartments st1) of
           Inl e \<Rightarrow> (Some e, st1)
         | Inr filteredApartments \<Rightarrow>
             (let st2 = renderMarkers filteredApartments st1
              in case find selected (markers st2) of
                   None \<Rightarrow> (None, st2)
                 | Some selectedMarker \<Rightarrow>
                     (case isPriceInRange (datum selectedMarker) (currentPriceFilter st2) of
                        Inl e \<Rightarrow> (Some e, st2)
                      | Inr inRange \<Rightarrow>
                          if \<not> inRange then (None, clearSelection st2) else (None, st2))))"

subsection \<open>Data loader\<close>

definition loadFailureMessage :: string where
  "loadFailureMessage = ''Some data failed to load. Using fallbacks where possible.''"

text \<open>The \<open>catch\<close> block of \<open>loadData\<close>: an exception of its own render pass is unhandled.\<close>

definition loadDataCatch :: "app \<Rightarrow> error option \<times> app" where
  "loadDataCatch st =
     (case renderMap st of
        (Some e, st1) \<Rightarrow> (Some e, st1)
      | (None, st1) \<Rightarrow> (None, showToast loadFailureMessage st1))"

text \<open>
  \<open>loadData\<close>. The three requests are awaited together; the fields are assigned only after
  the listings response has passed the status test and its body has been parsed.
\<close>

definition loadData :: "network \<Rightarrow> app \<Rightarrow> error option \<times> app" where
  "loadData net st =
     (case (fetchApartments net,
            getNeighborhoodData net ''WEST UNIVERSITY'',
            getNeighborhoodData net ''UT'') of
        (Resolved apartmentsResponse, Inr westUniversityData, Inr utCampusData) \<Rightarrow>
          if \<not> ok apartmentsResponse then loadDataCatch st
          else
            (case json apartmentsResponse of
               None \<Rightarrow> loadDataCatch st
             | Some listings \<Rightarrow>
                 (case renderMap (st\<lparr>apartments := listings,
                                     westUniversityNeighborhood := Some westUniversityData,
                                     utCampusNeighborhood := Some utCampusData\<rparr>) of
                    (None, st1) \<Rightarrow> (None, st1)
                  | (Some e, st1) \<Rightarrow> loadDataCatch st1))
      | _ \<Rightarrow> loadDataCatch st)"

text \<open>\<open>init\<close>: \<open>createMap\<close> ends with a first \<open>updateOverlay\<close>, then the data is loaded.\<close>

definition init :: "network \<Rightarrow> (rat \<Rightarrow> rat \<Rightarrow> rat \<times> rat) \<Rightarrow> error option \<times> app" where
  "init net proj = loadData net (updateOverlay (newApp proj))"

subsection \<open>Sequences of operations\<close>

datatype selectionOp = Select listing | Clear

fun applySelectionOp :: "selectionOp \<Rightarrow> app \<Rightarrow> app" where
  "applySelectionOp (Select a) st = selectApartment a st"
| "applySelectionOp Clear st = clearSelection st"

definition applySelectionOps :: "selectionOp list \<Rightarrow> app \<Rightarrow> app" where
  "applySelectionOps ops st = foldl (\<lambda>s op. applySelectionOp op s) st ops"

datatype overlayEvent = UpdateOverlay | AnimationFrame | ShowToast string

fun overlayStep :: "overlayEvent \<Rightarrow> app \<Rightarrow> app" where
  "overlayStep UpdateOverlay st = updateOverlay st"
| "overlayStep AnimationFrame st = animationFrame st"
| "overlayStep (ShowToast message) st = showToast message st"

definition overlayRun :: "overlayEvent list \<Rightarrow> app \<Rightarrow> app" where
  "overlayRun evs st = foldl (\<lambda>s ev. overlayStep ev s) st evs"

text \<open>The selected markers.\<close>

definition selectedMarkers :: "app \<Rightarrow> marker list" where
  "selectedMarkers st = filter selected (markers st)"

section \<open>Preconditions and example data\<close>

text \<open>
  A listing whose price can be read without an exception: it has a finite \<open>price_min\<close>, or
  its display price is falsy or a string.
\<close>

fun isString :: "jsval \<Rightarrow> bool" where
  "isString (JStr s) = True"
| "isString _ = False"

definition priceReadable :: "listing \<Rightarrow> bool" where
  "priceReadable a =
     (isFinite (price_min a) \<or> isString (price_per_person a) \<or> \<not> truthy (price_per_person a))"

text \<open>The key of a marker in the data join.\<close>

definition markerName :: "marker \<Rightarrow> string" where
  "markerName m = name (datum m)"

text \<open>The overlay callback is pending in at most one copy, and exactly when the flag is set.\<close>

definition overlayPending :: "app \<Rightarrow> bool" where
  "overlayPending st = (case scheduleUpdate st of Some h \<Rightarrow> h \<noteq> 0 | None \<Rightarrow> False)"

definition overlayInv :: "app \<Rightarrow> bool" where
  "overlayInv st =
     (scheduleUpdate st \<noteq> Some 0
      \<and> count_list (rafQueue st) OverlayUpdate = (if scheduleUpdate st = None then 0 else 1))"

text \<open>A network on which every request fails: the boundary service answers 500.\<close>

definition failingNetwork :: network where
  "failingNetwork =
     \<lparr>fetchApartments = NetworkFailure,
      fetchBoundary = (\<lambda>url. Resolved (Response 500 None))\<rparr>"

text \<open>A network on which only the listings endpoint fails.\<close>

definition someBoundary :: json where
  "someBoundary = JsonObject [(''type'', JsonString ''FeatureCollection''), (''features'', JsonArray [])]"

definition listingsDownNetwork :: network where
  "listingsDownNetwork =
     \<lparr>fetchApartments = Resolved (Response 500 None),
      fetchBoundary = (\<lambda>url. Resolved (Response 200 (Some someBoundary)))\<rparr>"

definition flatProjection :: "rat \<Rightarrow> rat \<Rightarrow> rat \<times> rat" where
  "flatProjection la lo = (lo, - la)"

definition exampleListing :: "string \<Rightarrow> jsval \<Rightarrow> jsval \<Rightarrow> listing" where
  "exampleListing n pmin price =
     \<lparr>name = n, lat = 30287 / 1000, lon = - 97742 / 1000, price_per_person = price,
      price_min = pmin, address = ''2100 Nueces St'', photo = JNull, notesText = [],
      website = JNull\<rparr>"

definition villas :: listing where
  "villas = exampleListing ''Villas'' (JNum (Fin 950)) (JStr ''950'')"

definition nueces :: listing where
  "nueces = exampleListing ''Nueces'' JUndefined (JStr ''$850s-$1,100s'')"


text \<open>Two listings loaded and rendered, no filter yet.\<close>

definition loadedApp :: app where
  "loadedApp =
     renderMarkers [villas, nueces] ((newApp flatProjection)\<lparr>apartments := [villas, nueces]\<rparr>)"



text \<open>One listing at 950, rendered and selected, its details in the panel.\<close>

definition selectedApp :: app where
  "selectedApp =
     selectApartment villas
       (renderMarkers [villas] ((newApp flatProjection)\<lparr>apartments := [villas]\<rparr>))"

section \<open>The price parser\<close>




















lemma listingMinimum_finite:
  "isFinite (price_min a) \<Longrightarrow> listingMinimum a = Inr (toNumber (price_min a))"
  by (cases "price_min a" rule: isFinite.cases) (simp_all add: listingMinimum_def)

lemma listingMinimum_parsed:
  "\<not> isFinite (price_min a) \<Longrightarrow>
     listingMinimum a = map_sum id min_r (parsePriceRange (price_per_person a))"
  by (cases "price_min a" rule: isFinite.cases) (simp_all add: listingMinimum_def)

text \<open>
  Claim C3. For every listing and every threshold: a falsy threshold (no threshold set)
  gives true; otherwise the result is whether the listing's minimum is at most the
  threshold as a number, where the minimum is \<open>price_min\<close> when that is a finite number and
  otherwise the minimum of \<open>parsePriceRange\<close> on the display price (an exception of the
  parser is passed on). A listing with \<open>price_min\<close> 850 passes the threshold 900, one with
  950 does not.
\<close>

theorem isPriceInRange_spec:
  "isPriceInRange a t =
     (if \<not> truthy t then Inr True
      else case listingMinimum a of
             Inl e \<Rightarrow> Inl e
           | Inr m \<Rightarrow> Inr (js_le m (toNumber t)))
   \<and> isPriceInRange (a\<lparr>price_min := JNum (Fin 850)\<rparr>) (JNum (Fin 900)) = Inr True
   \<and> isPriceInRange (a\<lparr>price_min := JNum (Fin 950)\<rparr>) (JNum (Fin 900)) = Inr False"
proof -
  have main: "isPriceInRange a t =
     (if \<not> truthy t then Inr True
      else case listingMinimum a of
             Inl e \<Rightarrow> Inl e
           | Inr m \<Rightarrow> Inr (js_le m (toNumber t)))"
  proof (cases "isFinite (price_min a)")
    case True
    then show ?thesis
      by (simp add: isPriceInRange_def listingMinimum_finite Let_def)
  next
    case False
    then show ?thesis
      by (cases "parsePriceRange (price_per_person a)")
         (simp_all add: isPriceInRange_def listingMinimum_parsed Let_def)
  qed
  have "isPriceInRange (a\<lparr>price_min := JNum (Fin 850)\<rparr>) (JNum (Fin 900)) = Inr True"
    by (simp add: isPriceInRange_def)
  moreover have "isPriceInRange (a\<lparr>price_min := JNum (Fin 950)\<rparr>) (JNum (Fin 900)) = Inr False"
    by (simp add: isPriceInRange_def)
  ultimately show ?thesis using main by simp
qed

section \<open>The boundary loader\<close>

text \<open>
  Claim C5. For every region name, when the boundary fetch fails (the request rejects, the
  status is not ok, or the body does not parse), \<open>getNeighborhoodData\<close> returns normally,
  and what it returns is the placeholder feature collection with the requested name and
  empty coordinates.
\<close>

theorem getNeighborhoodData_fallback:
  assumes "fetchFailed (fetchBoundary net (boundaryUrl neighname))"
  shows "getNeighborhoodData net neighname =
           Inr (JsonObject
                  [(''type'', JsonString ''FeatureCollection''),
                   (''features'',
                      JsonArray
                        [JsonObject
                           [(''type'', JsonString ''Feature''),
                            (''properties'', JsonObject [(''neighname'', JsonString neighname)]),
                            (''geometry'',
                               JsonObject
                                 [(''type'', JsonString ''MultiPolygon''),
                                  (''coordinates'', JsonArray [JsonArray [JsonArray []]])])]])])"
  using assms
  by (cases "fetchBoundary net (boundaryUrl neighname)")
     (auto simp: getNeighborhoodData_def getFallbackNeighborhoodData_def split: option.splits)

theorem getNeighborhoodData_fallback_witness:
  "fetchFailed (fetchBoundary failingNetwork (boundaryUrl ''WEST UNIVERSITY''))
   \<and> getNeighborhoodData failingNetwork ''WEST UNIVERSITY'' =
       Inr (JsonObject
              [(''type'', JsonString ''FeatureCollection''),
               (''features'',
                  JsonArray
                    [JsonObject
                       [(''type'', JsonString ''Feature''),
                        (''properties'', JsonObject [(''neighname'', JsonString ''WEST UNIVERSITY'')]),
                        (''geometry'',
                           JsonObject
                             [(''type'', JsonString ''MultiPolygon''),
                              (''coordinates'', JsonArray [JsonArray [JsonArray []]])])]])])"
proof -
  have h1: "fetchFailed (fetchBoundary failingNetwork (boundaryUrl ''WEST UNIVERSITY''))"
    by (simp add: failingNetwork_def ok_def)
  show ?thesis
    using h1 getNeighborhoodData_fallback[OF h1] by simp
qed

section \<open>The marker renderer\<close>

lemma map_datum_joinByName: "map datum (joinByName proj nodes ds) = ds"
  by (induction ds arbitrary: nodes) (auto split: option.splits)

lemma datum_renderMarkers: "map datum (markers (renderMarkers apts st)) = apts"
  by (simp add: renderMarkers_def map_datum_joinByName)

text \<open>
  The earlier \<open>renderApartments\<close> binds one marker to every loaded listing; with no listing
  loaded it returns at once and touches no marker.
\<close>

lemma renderApartments_markers:
  "apartments st \<noteq> [] \<Longrightarrow> map datum (markers (renderApartments st)) = apartments st"
  "apartments st = [] \<Longrightarrow> renderApartments st = st"
  by (simp_all add: renderApartments_def map_datum_joinByName)

lemma names_renderMarkers:
  "map markerName (markers (renderMarkers apts st)) = map name apts"
proof -
  have "map markerName (markers (renderMarkers apts st))
          = map name (map datum (markers (renderMarkers apts st)))"
    by (simp add: markerName_def comp_def)
  then show ?thesis by (simp only: datum_renderMarkers)
qed

lemma filterE_Inr:
  "filterE p xs = Inr ys \<Longrightarrow> ys = filter (\<lambda>x. p x = Inr True) xs"
  by (induction xs arbitrary: ys) (auto split: sum.splits if_splits)

lemma filterE_total:
  "\<forall>x \<in> set xs. \<exists>b. p x = Inr b \<Longrightarrow> \<exists>ys. filterE p xs = Inr ys"
  by (induction xs) (auto split: sum.splits)

lemma parsePriceRange_total:
  "isString v \<or> \<not> truthy v \<Longrightarrow> \<exists>r. parsePriceRange v = Inr r"
  by (cases v) (auto simp: parsePriceRange_def Let_def)

lemma isPriceInRange_total:
  assumes "priceReadable a"
  shows "\<exists>b. isPriceInRange a t = Inr b"
proof (cases "isFinite (price_min a)")
  case True
  then show ?thesis by (auto simp: isPriceInRange_def Let_def)
next
  case False
  with assms have "isString (price_per_person a) \<or> \<not> truthy (price_per_person a)"
    by (simp add: priceReadable_def)
  then obtain r where "parsePriceRange (price_per_person a) = Inr r"
    using parsePriceRange_total by blast
  then show ?thesis by (auto simp: isPriceInRange_def Let_def)
qed

lemma isPriceInRange_falsy: "\<not> truthy t \<Longrightarrow> isPriceInRange a t = Inr True"
  by (simp add: isPriceInRange_def)

lemma filterE_all_true:
  "\<forall>x \<in> set xs. p x = Inr True \<Longrightarrow> filterE p xs = Inr xs"
  by (induction xs) auto


lemma getFilteredApartments_total:
  assumes "\<not> truthy (currentPriceFilter st) \<or> (\<forall>a \<in> set (apartments st). priceReadable a)"
  shows "\<exists>apts. getFilteredApartments st = Inr apts"
proof (cases "truthy (currentPriceFilter st)")
  case False
  then show ?thesis by (simp add: getFilteredApartments_def)
next
  case True
  with assms have "\<forall>a \<in> set (apartments st). priceReadable a" by simp
  then have "\<exists>ys. filterE (\<lambda>a. isPriceInRange a (currentPriceFilter st)) (apartments st) = Inr ys"
    by (intro filterE_total) (simp add: isPriceInRange_total)
  then show ?thesis by (auto simp: getFilteredApartments_def)
qed



section \<open>Filtering by price\<close>

lemma find_Some_set: "find P xs = Some x \<Longrightarrow> x \<in> set xs \<and> P x"
  by (induction xs) (auto split: if_splits)

lemma infoPanel_renderMarkers: "infoPanel (renderMarkers apts st) = infoPanel st"
  by (simp add: renderMarkers_def)

lemma currentPriceFilter_renderMarkers:
  "currentPriceFilter (renderMarkers apts st) = currentPriceFilter st"
  by (simp add: renderMarkers_def)

text \<open>
  When the filter raises no exception, \<open>filterByPrice\<close> is the render of the filtered
  listings and nothing more: every marker left by that render carries a datum that passes
  the filter, so the test on the selected marker never fails and \<open>clearSelection\<close> is never
  reached.
\<close>

lemma filterByPrice_result:
  assumes "filterE (\<lambda>a. isPriceInRange a (currentPriceFilter st1)) (apartments st1) = Inr filtered"
    and "st1 = st\<lparr>currentPriceFilter := (if truthy maxPrice then JNum (toNumber maxPrice) else JNull)\<rparr>"
  shows "filterByPrice maxPrice st = (None, renderMarkers filtered st1)"
proof -
  define st2 where "st2 = renderMarkers filtered st1"
  have pass: "isPriceInRange (datum m) (currentPriceFilter st2) = Inr True"
    if "find selected (markers st2) = Some m" for m
  proof -
    from that have "m \<in> set (markers st2)" by (simp add: find_Some_set)
    then have "datum m \<in> set (map datum (markers st2))" by simp
    then have "datum m \<in> set filtered" by (simp only: st2_def datum_renderMarkers)
    moreover have "filtered = filter (\<lambda>a. isPriceInRange a (currentPriceFilter st1) = Inr True) (apartments st1)"
      using assms(1) by (rule filterE_Inr)
    ultimately show ?thesis by (simp add: st2_def currentPriceFilter_renderMarkers)
  qed
  have step: "filterByPrice maxPrice st =
      (case find selected (markers st2) of
         None \<Rightarrow> (None, st2)
       | Some sm \<Rightarrow>
           (case isPriceInRange (datum sm) (currentPriceFilter st2) of
              Inl e \<Rightarrow> (Some e, st2)
            | Inr b \<Rightarrow> if \<not> b then (None, clearSelection st2) else (None, st2)))"
    unfolding filterByPrice_def Let_def assms(2)[symmetric] assms(1) st2_def by simp
  show ?thesis
  proof (cases "find selected (markers st2)")
    case None
    then show ?thesis by (simp add: step st2_def)
  next
    case (Some m)
    then show ?thesis using pass[OF Some] by (simp add: step st2_def)
  qed
qed

text \<open>Hence \<open>filterByPrice\<close> never changes the detail panel.\<close>

lemma filterByPrice_infoPanel: "infoPanel (snd (filterByPrice maxPrice st)) = infoPanel st"
proof -
  let ?st1 = "st\<lparr>currentPriceFilter := (if truthy maxPrice then JNum (toNumber maxPrice) else JNull)\<rparr>"
  show ?thesis
  proof (cases "filterE (\<lambda>a. isPriceInRange a (currentPriceFilter ?st1)) (apartments ?st1)")
    case (Inl e)
    then show ?thesis by (simp add: filterByPrice_def Let_def)
  next
    case (Inr filtered)
    then have "filterByPrice maxPrice st = (None, renderMarkers filtered ?st1)"
      by (rule filterByPrice_result) simp
    then show ?thesis by (simp add: infoPanel_renderMarkers)
  qed
qed

lemma stringToNumber_900: "stringToNumber ''900'' = Fin 900"
  by (simp add: stringToNumber_def trimWS_def isWhiteSpace_def unsignedDecimal_def
        isDecimalDigit_def exponentPart_def digitsValue_def digitValue_def scale10_def)

lemma villas_fields: "price_min villas = JNum (Fin 950)" "name villas = ''Villas''"
  by (simp_all add: villas_def exampleListing_def)

lemma villas_900: "isPriceInRange villas (JNum (Fin 900)) = Inr False"
  by (simp add: isPriceInRange_def villas_fields)

lemma selectedApp_fields:
  "markers selectedApp = [\<lparr>datum = villas, selected = True, transform = flatProjection (lat villas) (lon villas)\<rparr>]"
  "infoPanel selectedApp = Some (Details villas)"
  "apartments selectedApp = [villas]"
  by (simp_all add: selectedApp_def selectApartment_def updateInfoPanel_def renderMarkers_def
        newApp_def Let_def)

text \<open>
  Claim C4 fails on the code. One listing with \<open>price_min\<close> 950 is rendered and selected,
  and the panel shows its details. \<open>filterByPrice("900")\<close> removes its marker in
  \<open>renderMarkers\<close>, so the search for a selected marker that follows finds none,
  \<open>clearSelection\<close> is not called, and the panel still shows the details of the listing
  that was filtered out.
\<close>

theorem filterByPrice_selected_filtered_out:
  "selectedMarkers selectedApp =
     [\<lparr>datum = villas, selected = True, transform = flatProjection (lat villas) (lon villas)\<rparr>]
   \<and> infoPanel selectedApp = Some (Details villas)
   \<and> isPriceInRange villas (JNum (Fin 900)) = Inr False
   \<and> fst (filterByPrice (JStr ''900'') selectedApp) = None
   \<and> currentPriceFilter (snd (filterByPrice (JStr ''900'') selectedApp)) = JNum (Fin 900)
   \<and> markers (snd (filterByPrice (JStr ''900'') selectedApp)) = []
   \<and> infoPanel (snd (filterByPrice (JStr ''900'') selectedApp)) = Some (Details villas)
   \<and> infoPanel (snd (filterByPrice (JStr ''900'') selectedApp)) \<noteq> Some EmptyState"
proof -
  define st1 where "st1 = selectedApp\<lparr>currentPriceFilter := JNum (Fin 900)\<rparr>"
  have st1: "st1 = selectedApp\<lparr>currentPriceFilter :=
                (if truthy (JStr ''900'') then JNum (toNumber (JStr ''900'')) else JNull)\<rparr>"
    by (simp add: st1_def stringToNumber_900)
  have fe: "filterE (\<lambda>a. isPriceInRange a (currentPriceFilter st1)) (apartments st1) = Inr []"
    by (simp add: st1_def selectedApp_fields villas_900)
  have res: "filterByPrice (JStr ''900'') selectedApp = (None, renderMarkers [] st1)"
    using fe st1 by (rule filterByPrice_result)
  have a: "selectedMarkers selectedApp =
     [\<lparr>datum = villas, selected = True, transform = flatProjection (lat villas) (lon villas)\<rparr>]"
    by (simp add: selectedMarkers_def selectedApp_fields)
  have b: "markers (renderMarkers [] st1) = []"
    by (simp add: renderMarkers_def)
  have c: "infoPanel (renderMarkers [] st1) = Some (Details villas)"
    by (simp add: infoPanel_renderMarkers st1_def selectedApp_fields)
  have d: "currentPriceFilter (renderMarkers [] st1) = JNum (Fin 900)"
    by (simp add: currentPriceFilter_renderMarkers st1_def)
  show ?thesis
    using a b c d villas_900 by (simp add: res selectedApp_fields)
qed


lemma stringToNumber_0: "stringToNumber ''0'' = Fin 0"
  by (simp add: stringToNumber_def trimWS_def isWhiteSpace_def unsignedDecimal_def
        isDecimalDigit_def exponentPart_def digitsValue_def digitValue_def scale10_def)

lemma filterByPrice_falsy_store:
  assumes "st1 = st\<lparr>currentPriceFilter := (if truthy maxPrice then JNum (toNumber maxPrice) else JNull)\<rparr>"
    and "\<not> truthy (currentPriceFilter st1)"
  shows "filterByPrice maxPrice st = (None, renderMarkers (apartments st) st1)"
proof -
  have "filterE (\<lambda>a. isPriceInRange a (currentPriceFilter st1)) (apartments st1) = Inr (apartments st1)"
    using assms(2) by (intro filterE_all_true) (simp add: isPriceInRange_falsy)
  then have "filterByPrice maxPrice st = (None, renderMarkers (apartments st1) st1)"
    using assms(1) by (rule filterByPrice_result)
  moreover have "apartments st1 = apartments st" by (simp add: assms(1))
  ultimately show ?thesis by simp
qed

text \<open>
  Claim C10, as the code has it. A zero threshold is no filter: \<open>isPriceInRange\<close> is true
  for every listing under the threshold 0. \<open>filterByPrice(0)\<close> stores \<open>null\<close>;
  \<open>filterByPrice("0")\<close> stores the number 0, because the string \<open>"0"\<close> is truthy, and the
  stored 0 is falsy wherever it is tested. In both cases the call completes and every
  loaded listing is rendered.
\<close>

theorem zero_threshold_no_filter:
  "isPriceInRange a (JNum (Fin 0)) = Inr True
   \<and> fst (filterByPrice (JNum (Fin 0)) st) = None
   \<and> currentPriceFilter (snd (filterByPrice (JNum (Fin 0)) st)) = JNull
   \<and> map datum (markers (snd (filterByPrice (JNum (Fin 0)) st))) = apartments st
   \<and> fst (filterByPrice (JStr ''0'') st) = None
   \<and> currentPriceFilter (snd (filterByPrice (JStr ''0'') st)) = JNum (Fin 0)
   \<and> \<not> truthy (currentPriceFilter (snd (filterByPrice (JStr ''0'') st)))
   \<and> map datum (markers (snd (filterByPrice (JStr ''0'') st))) = apartments st
   \<and> getFilteredApartments (snd (filterByPrice (JStr ''0'') st)) = Inr (apartments st)"
proof -
  have z: "isPriceInRange a (JNum (Fin 0)) = Inr True"
    by (simp add: isPriceInRange_def)
  have n: "filterByPrice (JNum (Fin 0)) st
             = (None, renderMarkers (apartments st) (st\<lparr>currentPriceFilter := JNull\<rparr>))"
    by (rule filterByPrice_falsy_store) simp_all
  have s: "filterByPrice (JStr ''0'') st
             = (None, renderMarkers (apartments st) (st\<lparr>currentPriceFilter := JNum (Fin 0)\<rparr>))"
    by (rule filterByPrice_falsy_store) (simp_all add: stringToNumber_0)
  have g: "getFilteredApartments (renderMarkers (apartments st) (st\<lparr>currentPriceFilter := JNum (Fin 0)\<rparr>))
             = Inr (apartments st)"
    by (simp add: getFilteredApartments_def renderMarkers_def)
  show ?thesis
    by (simp add: z n s g datum_renderMarkers currentPriceFilter_renderMarkers)
qed

text \<open>
  The claim as stated fails for the string: after \<open>filterByPrice("0")\<close> on the new
  application the stored filter is the number 0, not \<open>null\<close>.
\<close>

theorem filterByPrice_zero_string_counterexample:
  "currentPriceFilter (snd (filterByPrice (JStr ''0'') (newApp flatProjection))) = JNum (Fin 0)
   \<and> currentPriceFilter (snd (filterByPrice (JStr ''0'') (newApp flatProjection))) \<noteq> JNull"
proof -
  have "filterByPrice (JStr ''0'') (newApp flatProjection)
          = (None, renderMarkers (apartments (newApp flatProjection))
                     ((newApp flatProjection)\<lparr>currentPriceFilter := JNum (Fin 0)\<rparr>))"
    by (rule filterByPrice_falsy_store) (simp_all add: stringToNumber_0)
  then show ?thesis
    by (simp add: currentPriceFilter_renderMarkers)
qed


section \<open>Selection\<close>


lemma markers_selectApartment:
  "markers (selectApartment a st) =
     map (\<lambda>m. m\<lparr>selected := (markerName m = name a)\<rparr>) (markers st)"
  by (auto simp: selectApartment_def updateInfoPanel_def Let_def markerName_def
           split: option.splits)

lemma markers_clearSelection:
  "markers (clearSelection st) = map (\<lambda>m. m\<lparr>selected := False\<rparr>) (markers st)"
  by (auto simp: clearSelection_def updateInfoPanel_def split: option.splits)

lemma names_selectApartment:
  "map markerName (markers (selectApartment a st)) = map markerName (markers st)"
  by (simp add: markers_selectApartment markerName_def comp_def)

lemma names_clearSelection:
  "map markerName (markers (clearSelection st)) = map markerName (markers st)"
  by (simp add: markers_clearSelection markerName_def comp_def)

lemma selected_clearSelection: "selectedMarkers (clearSelection st) = []"
  by (simp add: selectedMarkers_def markers_clearSelection filter_map comp_def)

lemma selected_selectApartment:
  "selectedMarkers (selectApartment a st) =
     map (\<lambda>m. m\<lparr>selected := True\<rparr>) (filter (\<lambda>m. markerName m = name a) (markers st))"
  by (induction "markers st" arbitrary: st)
     (auto simp: selectedMarkers_def markers_selectApartment filter_map comp_def markerName_def)

lemma filter_key_absent: "k \<notin> set (map f xs) \<Longrightarrow> filter (\<lambda>x. f x = k) xs = []"
  by (induction xs) auto

lemma distinct_filter_key:
  "distinct (map f xs) \<Longrightarrow> length (filter (\<lambda>x. f x = k) xs) \<le> 1"
proof (induction xs)
  case Nil
  then show ?case by simp
next
  case (Cons x xs)
  show ?case
  proof (cases "f x = k")
    case True
    with Cons.prems have "k \<notin> set (map f xs)" by auto
    then have "filter (\<lambda>x. f x = k) xs = []" by (rule filter_key_absent)
    with True show ?thesis by simp
  next
    case False
    with Cons show ?thesis by simp
  qed
qed

lemma distinct_filter_key_one:
  "distinct (map f xs) \<Longrightarrow> k \<in> set (map f xs) \<Longrightarrow> length (filter (\<lambda>x. f x = k) xs) = 1"
proof (induction xs)
  case Nil
  then show ?case by simp
next
  case (Cons x xs)
  show ?case
  proof (cases "f x = k")
    case True
    with Cons.prems have "k \<notin> set (map f xs)" by auto
    then have "filter (\<lambda>x. f x = k) xs = []" by (rule filter_key_absent)
    with True show ?thesis by simp
  next
    case False
    with Cons show ?thesis by auto
  qed
qed

lemma names_applySelectionOp:
  "map markerName (markers (applySelectionOp op st)) = map markerName (markers st)"
  by (cases op) (simp_all add: names_selectApartment names_clearSelection)

lemma selected_applySelectionOp:
  assumes "distinct (map markerName (markers st))"
  shows "length (selectedMarkers (applySelectionOp op st)) \<le> 1"
proof (cases op)
  case (Select a)
  then show ?thesis
    using distinct_filter_key[OF assms, of "name a"]
    by (simp add: selected_selectApartment)
next
  case Clear
  then show ?thesis by (simp add: selected_clearSelection)
qed

lemma names_applySelectionOps:
  "map markerName (markers (applySelectionOps ops st)) = map markerName (markers st)"
  unfolding applySelectionOps_def
  by (induction ops arbitrary: st) (simp_all add: names_applySelectionOp)

lemma applySelectionOps_snoc:
  "applySelectionOps (ops @ [op]) st = applySelectionOp op (applySelectionOps ops st)"
  by (simp add: applySelectionOps_def)

lemma selected_applySelectionOps:
  assumes "distinct (map markerName (markers st))"
    and "ops \<noteq> [] \<or> length (selectedMarkers st) \<le> 1"
  shows "length (selectedMarkers (applySelectionOps ops st)) \<le> 1"
proof (cases ops rule: rev_cases)
  case Nil
  with assms(2) show ?thesis by (simp add: applySelectionOps_def)
next
  case (snoc ops' op)
  have "distinct (map markerName (markers (applySelectionOps ops' st)))"
    using assms(1) by (simp only: names_applySelectionOps)
  then show ?thesis
    unfolding snoc applySelectionOps_snoc by (rule selected_applySelectionOp)
qed

text \<open>
  Claim C7. Let the names of the rendered markers be distinct, as they are after rendering
  listings with unique names. After \<open>selectApartment\<close> of a listing that has a marker
  (the operation is only called from the handlers of a marker, with its datum) exactly one
  marker carries the selected flag, the one with the listing's name; after
  \<open>clearSelection\<close> none does; and after every sequence of select and clear operations
  at most one does.
\<close>

theorem selection_at_most_one:
  assumes "distinct (map markerName (markers st))"
  shows "(name a \<in> set (map markerName (markers st)) \<longrightarrow>
            (\<exists>m. selectedMarkers (selectApartment a st) = [m] \<and> markerName m = name a))
         \<and> length (selectedMarkers (selectApartment a st)) \<le> 1
         \<and> selectedMarkers (clearSelection st) = []
         \<and> (ops \<noteq> [] \<or> length (selectedMarkers st) \<le> 1 \<longrightarrow>
              length (selectedMarkers (applySelectionOps ops st)) \<le> 1)
         \<and> (distinct (map name apts) \<longrightarrow>
              distinct (map markerName (markers (renderMarkers apts st0))))"
proof -
  have one: "\<exists>m. selectedMarkers (selectApartment a st) = [m] \<and> markerName m = name a"
    if "name a \<in> set (map markerName (markers st))"
  proof -
    have "length (filter (\<lambda>m. markerName m = name a) (markers st)) = 1"
      using assms that by (rule distinct_filter_key_one)
    then obtain m0 where m0: "filter (\<lambda>m. markerName m = name a) (markers st) = [m0]"
      by (cases "filter (\<lambda>m. markerName m = name a) (markers st)") auto
    then have "m0 \<in> set (filter (\<lambda>m. markerName m = name a) (markers st))" by simp
    then have "markerName m0 = name a" by simp
    then have "markerName (m0\<lparr>selected := True\<rparr>) = name a" by (simp add: markerName_def)
    moreover have "selectedMarkers (selectApartment a st) = [m0\<lparr>selected := True\<rparr>]"
      by (simp add: selected_selectApartment m0)
    ultimately show ?thesis by blast
  qed
  have le: "length (selectedMarkers (selectApartment a st)) \<le> 1"
    using distinct_filter_key[OF assms, of "name a"] by (simp add: selected_selectApartment)
  have rn: "distinct (map name apts) \<longrightarrow>
              distinct (map markerName (markers (renderMarkers apts st0)))"
    by (simp only: names_renderMarkers) simp
  show ?thesis
    using one le rn selected_clearSelection[of st] selected_applySelectionOps[OF assms, of ops]
    by blast
qed

lemma loadedApp_names: "map markerName (markers loadedApp) = [''Villas'', ''Nueces'']"
  by (simp add: loadedApp_def names_renderMarkers villas_def nueces_def exampleListing_def)

theorem selection_at_most_one_witness:
  "distinct (map markerName (markers loadedApp))
   \<and> name nueces \<in> set (map markerName (markers loadedApp))
   \<and> (\<exists>m. selectedMarkers (selectApartment nueces loadedApp) = [m] \<and> markerName m = name nueces)
   \<and> selectedMarkers (clearSelection loadedApp) = []
   \<and> [Select villas, Select nueces, Clear, Select villas] \<noteq> []
   \<and> length (selectedMarkers
               (applySelectionOps [Select villas, Select nueces, Clear, Select villas] loadedApp)) \<le> 1
   \<and> distinct (map name [villas, nueces])
   \<and> distinct (map markerName (markers (renderMarkers [villas, nueces] loadedApp)))"
proof -
  have h: "distinct (map markerName (markers loadedApp))"
    by (simp add: loadedApp_names)
  have n: "name nueces \<in> set (map markerName (markers loadedApp))"
    by (simp add: loadedApp_names nueces_def exampleListing_def)
  have d: "distinct (map name [villas, nueces])"
    by (simp add: villas_def nueces_def exampleListing_def)
  have o: "[Select villas, Select nueces, Clear, Select villas] \<noteq> []"
    by simp
  from selection_at_most_one[OF h, of nueces "[Select villas, Select nueces, Clear, Select villas]"
         "[villas, nueces]" loadedApp] h n d o
  show ?thesis by blast
qed

section \<open>The overlay update\<close>

lemma overlay_fields_renderMarkers:
  "scheduleUpdate (renderMarkers apts st) = scheduleUpdate st"
  "rafQueue (renderMarkers apts st) = rafQueue st"
  "overlayRepositions (renderMarkers apts st) = overlayRepositions st"
  by (simp_all add: renderMarkers_def)

lemma overlay_fields_overlayCallback:
  "scheduleUpdate (overlayCallback st) = None"
  "rafQueue (overlayCallback st) = rafQueue st"
  "overlayRepositions (overlayCallback st) = overlayRepositions st + 1"
  by (simp_all add: overlayCallback_def Let_def overlay_fields_renderMarkers split: sum.splits)

lemma overlay_fields_callbacks:
  "rafQueue (foldl (\<lambda>s cb. runFrameCallback cb s) st q) = rafQueue st
   \<and> overlayRepositions (foldl (\<lambda>s cb. runFrameCallback cb s) st q)
       = overlayRepositions st + count_list q OverlayUpdate
   \<and> scheduleUpdate (foldl (\<lambda>s cb. runFrameCallback cb s) st q)
       = (if OverlayUpdate \<in> set q then None else scheduleUpdate st)"
proof (induction q arbitrary: st)
  case Nil
  then show ?case by simp
next
  case (Cons cb q)
  show ?case
  proof (cases cb)
    case OverlayUpdate
    then show ?thesis
      using Cons.IH[of "overlayCallback st"] by (simp add: overlay_fields_overlayCallback)
  next
    case ToastShow
    then show ?thesis
      using Cons.IH[of st] by simp
  qed
qed

lemma overlay_fields_animationFrame:
  "rafQueue (animationFrame st) = []"
  "overlayRepositions (animationFrame st)
     = overlayRepositions st + count_list (rafQueue st) OverlayUpdate"
  "scheduleUpdate (animationFrame st)
     = (if OverlayUpdate \<in> set (rafQueue st) then None else scheduleUpdate st)"
  using overlay_fields_callbacks[of "st\<lparr>rafQueue := []\<rparr>" "rafQueue st"]
  by (simp_all add: animationFrame_def)

lemma updateOverlay_pending: "overlayPending st \<Longrightarrow> updateOverlay st = st"
  by (simp add: updateOverlay_def overlayPending_def)

lemma updateOverlay_idle:
  "\<not> overlayPending st \<Longrightarrow>
     updateOverlay st =
       st\<lparr>rafCounter := rafCounter st + 1, rafQueue := rafQueue st @ [OverlayUpdate],
          scheduleUpdate := Some (rafCounter st + 1)\<rparr>"
  by (simp add: updateOverlay_def overlayPending_def requestAnimationFrame_def Let_def)

lemma overlay_fields_showToast:
  "scheduleUpdate (showToast msg st) = scheduleUpdate st"
  "rafQueue (showToast msg st) = rafQueue st @ [ToastShow]"
  "overlayRepositions (showToast msg st) = overlayRepositions st"
  by (simp_all add: showToast_def requestAnimationFrame_def Let_def)

lemma count_pos_in_set: "count_list xs x = 1 \<Longrightarrow> x \<in> set xs"
  by (induction xs) (auto split: if_splits)

lemma overlayInv_pending:
  "overlayInv st \<Longrightarrow> overlayPending st \<longleftrightarrow> scheduleUpdate st \<noteq> None"
  by (cases "scheduleUpdate st") (auto simp: overlayInv_def overlayPending_def)

lemma overlayInv_step:
  assumes "overlayInv st"
  shows "overlayInv (overlayStep ev st)"
proof (cases ev)
  case UpdateOverlay
  show ?thesis
  proof (cases "overlayPending st")
    case True
    with assms UpdateOverlay show ?thesis by (simp add: updateOverlay_pending)
  next
    case False
    with assms have "scheduleUpdate st = None" by (simp add: overlayInv_pending)
    with assms False UpdateOverlay show ?thesis
      by (simp add: updateOverlay_idle overlayInv_def)
  qed
next
  case AnimationFrame
  have "scheduleUpdate (animationFrame st) = None"
  proof (cases "scheduleUpdate st = None")
    case True
    then show ?thesis by (simp add: overlay_fields_animationFrame)
  next
    case False
    with assms have "count_list (rafQueue st) OverlayUpdate = 1"
      by (simp add: overlayInv_def)
    then have "OverlayUpdate \<in> set (rafQueue st)" by (rule count_pos_in_set)
    then show ?thesis by (simp add: overlay_fields_animationFrame)
  qed
  with AnimationFrame show ?thesis
    by (simp add: overlayInv_def overlay_fields_animationFrame)
next
  case (ShowToast msg)
  with assms show ?thesis
    by (simp add: overlayInv_def overlay_fields_showToast)
qed

lemma overlayInv_run: "overlayInv st \<Longrightarrow> overlayInv (overlayRun evs st)"
  unfolding overlayRun_def
  by (induction evs arbitrary: st) (simp_all add: overlayInv_step)

text \<open>
  Claim C8. Start with no overlay callback scheduled. After every sequence of
  \<open>updateOverlay\<close> calls, animation frames and toasts, the browser's list holds at most
  one overlay callback, so the next frame repositions the overlay at most once. While the
  flag is set a further \<open>updateOverlay\<close> changes nothing; when it is not set the call
  schedules exactly one callback and sets the flag. The callback clears the flag, and no
  callback is pending after a frame.
\<close>

theorem updateOverlay_coalesced:
  assumes "scheduleUpdate st0 = None" and "OverlayUpdate \<notin> set (rafQueue st0)"
  shows "count_list (rafQueue (overlayRun evs st0)) OverlayUpdate \<le> 1
         \<and> overlayRepositions (animationFrame (overlayRun evs st0))
              \<le> overlayRepositions (overlayRun evs st0) + 1
         \<and> (overlayPending (overlayRun evs st0) \<longrightarrow>
               updateOverlay (overlayRun evs st0) = overlayRun evs st0
               \<and> count_list (rafQueue (overlayRun evs st0)) OverlayUpdate = 1
               \<and> overlayRepositions (animationFrame (overlayRun evs st0))
                    = overlayRepositions (overlayRun evs st0) + 1)
         \<and> (\<not> overlayPending (overlayRun evs st0) \<longrightarrow>
               overlayPending (updateOverlay (overlayRun evs st0))
               \<and> rafQueue (updateOverlay (overlayRun evs st0))
                    = rafQueue (overlayRun evs st0) @ [OverlayUpdate]
               \<and> overlayRepositions (animationFrame (overlayRun evs st0))
                    = overlayRepositions (overlayRun evs st0))
         \<and> \<not> overlayPending (animationFrame (overlayRun evs st0))
         \<and> scheduleUpdate (overlayCallback st) = None"
proof -
  define s where "s = overlayRun evs st0"
  have "count_list (rafQueue st0) OverlayUpdate = 0"
    using assms(2) by (simp add: count_list_0_iff)
  then have "overlayInv st0"
    using assms(1) by (simp add: overlayInv_def)
  then have inv: "overlayInv s"
    unfolding s_def by (rule overlayInv_run)
  have pend: "overlayPending s \<longleftrightarrow> scheduleUpdate s \<noteq> None"
    using inv by (rule overlayInv_pending)
  have cnt: "count_list (rafQueue s) OverlayUpdate = (if overlayPending s then 1 else 0)"
    using inv pend by (simp add: overlayInv_def)
  have a: "count_list (rafQueue s) OverlayUpdate \<le> 1"
    by (simp add: cnt)
  have b: "overlayRepositions (animationFrame s) \<le> overlayRepositions s + 1"
    by (simp add: overlay_fields_animationFrame cnt)
  have c: "updateOverlay s = s \<and> count_list (rafQueue s) OverlayUpdate = 1
           \<and> overlayRepositions (animationFrame s) = overlayRepositions s + 1"
    if "overlayPending s"
    using that by (simp add: updateOverlay_pending cnt overlay_fields_animationFrame)
  have d: "overlayPending (updateOverlay s)
           \<and> rafQueue (updateOverlay s) = rafQueue s @ [OverlayUpdate]
           \<and> overlayRepositions (animationFrame s) = overlayRepositions s"
    if "\<not> overlayPending s"
    using that by (simp add: updateOverlay_idle cnt overlay_fields_animationFrame overlayPending_def)
  have e: "\<not> overlayPending (animationFrame s)"
  proof (cases "overlayPending s")
    case True
    then have "OverlayUpdate \<in> set (rafQueue s)"
      using cnt by (simp add: count_pos_in_set)
    then show ?thesis
      by (simp add: overlayPending_def overlay_fields_animationFrame)
  next
    case False
    then have "scheduleUpdate s = None" using pend by simp
    then show ?thesis
      by (simp add: overlayPending_def overlay_fields_animationFrame)
  qed
  have f: "scheduleUpdate (overlayCallback st) = None"
    by (simp add: overlay_fields_overlayCallback)
  show ?thesis
    using a b c d e f unfolding s_def by blast
qed


lemma overlayRun_example1:
  "overlayRun [UpdateOverlay, UpdateOverlay, ShowToast ''note'', UpdateOverlay] (newApp flatProjection)
     = (newApp flatProjection)\<lparr>rafCounter := 2, rafQueue := [OverlayUpdate, ToastShow],
          scheduleUpdate := Some 1, toasts := [''note'']\<rparr>"
  by (simp add: overlayRun_def updateOverlay_def showToast_def requestAnimationFrame_def
        newApp_def Let_def)

lemma overlayRun_example2:
  "overlayRun [UpdateOverlay, AnimationFrame] (newApp flatProjection)
     = (newApp flatProjection)\<lparr>rafCounter := 1, overlayRepositions := 1\<rparr>"
  by (simp add: overlayRun_def updateOverlay_def requestAnimationFrame_def animationFrame_def
        overlayCallback_def getFilteredApartments_def renderMarkers_def newApp_def Let_def)

theorem updateOverlay_coalesced_witness:
  "scheduleUpdate (newApp flatProjection) = None
   \<and> OverlayUpdate \<notin> set (rafQueue (newApp flatProjection))
   \<and> overlayPending
        (overlayRun [UpdateOverlay, UpdateOverlay, ShowToast ''note'', UpdateOverlay]
           (newApp flatProjection))
   \<and> rafQueue
        (overlayRun [UpdateOverlay, UpdateOverlay, ShowToast ''note'', UpdateOverlay]
           (newApp flatProjection)) = [OverlayUpdate, ToastShow]
   \<and> overlayRepositions
        (animationFrame
           (overlayRun [UpdateOverlay, UpdateOverlay, ShowToast ''note'', UpdateOverlay]
              (newApp flatProjection))) = 1
   \<and> \<not> overlayPending (overlayRun [UpdateOverlay, AnimationFrame] (newApp flatProjection))
   \<and> overlayPending
        (updateOverlay (overlayRun [UpdateOverlay, AnimationFrame] (newApp flatProjection)))
   \<and> overlayRepositions
        (animationFrame (overlayRun [UpdateOverlay, AnimationFrame] (newApp flatProjection))) = 1"
proof -
  have h1: "scheduleUpdate (newApp flatProjection) = None"
    by (simp add: newApp_def)
  have h2: "OverlayUpdate \<notin> set (rafQueue (newApp flatProjection))"
    by (simp add: newApp_def)
  have p1: "overlayPending
        (overlayRun [UpdateOverlay, UpdateOverlay, ShowToast ''note'', UpdateOverlay]
           (newApp flatProjection))"
    unfolding overlayRun_example1 by (simp add: overlayPending_def)
  have q1: "rafQueue
        (overlayRun [UpdateOverlay, UpdateOverlay, ShowToast ''note'', UpdateOverlay]
           (newApp flatProjection)) = [OverlayUpdate, ToastShow]"
    by (simp add: overlayRun_example1)
  have r1: "overlayRepositions
        (overlayRun [UpdateOverlay, UpdateOverlay, ShowToast ''note'', UpdateOverlay]
           (newApp flatProjection)) = 0"
    unfolding overlayRun_example1 by (simp add: newApp_def)
  have p2: "\<not> overlayPending (overlayRun [UpdateOverlay, AnimationFrame] (newApp flatProjection))"
    unfolding overlayRun_example2 by (simp add: overlayPending_def newApp_def)
  have r2: "overlayRepositions (overlayRun [UpdateOverlay, AnimationFrame] (newApp flatProjection)) = 1"
    by (simp add: overlayRun_example2)
  note T1 = updateOverlay_coalesced[OF h1 h2,
      of "[UpdateOverlay, UpdateOverlay, ShowToast ''note'', UpdateOverlay]" "newApp flatProjection"]
  note T2 = updateOverlay_coalesced[OF h1 h2,
      of "[UpdateOverlay, AnimationFrame]" "newApp flatProjection"]
  from T1 p1 r1 have a: "overlayRepositions
        (animationFrame
           (overlayRun [UpdateOverlay, UpdateOverlay, ShowToast ''note'', UpdateOverlay]
              (newApp flatProjection))) = 1"
    by simp
  from T2 p2 r2 have b: "overlayPending
        (updateOverlay (overlayRun [UpdateOverlay, AnimationFrame] (newApp flatProjection)))
      \<and> overlayRepositions
        (animationFrame (overlayRun [UpdateOverlay, AnimationFrame] (newApp flatProjection))) = 1"
    by simp
  from h1 h2 p1 q1 a p2 b show ?thesis by blast
qed

section \<open>The data loader\<close>


lemma getNeighborhoodData_total: "\<exists>data. getNeighborhoodData net n = Inr data"
  by (auto simp: getNeighborhoodData_def split: fetchResult.splits option.splits)

lemma loadData_failed:
  assumes "fetchFailed (fetchApartments net)"
  shows "loadData net st = loadDataCatch st"
proof -
  obtain w where w: "getNeighborhoodData net ''WEST UNIVERSITY'' = Inr w"
    using getNeighborhoodData_total by blast
  obtain u where u: "getNeighborhoodData net ''UT'' = Inr u"
    using getNeighborhoodData_total by blast
  show ?thesis
  proof (cases "fetchApartments net")
    case NetworkFailure
    then show ?thesis by (simp add: loadData_def w u)
  next
    case (Resolved r)
    with assms have "\<not> ok r \<or> json r = None" by simp
    with Resolved show ?thesis by (auto simp: loadData_def w u)
  qed
qed

lemma data_fields_renderMarkers:
  "apartments (renderMarkers apts st) = apartments st"
  "westUniversityNeighborhood (renderMarkers apts st) = westUniversityNeighborhood st"
  "utCampusNeighborhood (renderMarkers apts st) = utCampusNeighborhood st"
  "toasts (renderMarkers apts st) = toasts st"
  by (simp_all add: renderMarkers_def)

lemma data_fields_updateInfoPanel:
  "apartments (updateInfoPanel sel st) = apartments st"
  "westUniversityNeighborhood (updateInfoPanel sel st) = westUniversityNeighborhood st"
  "utCampusNeighborhood (updateInfoPanel sel st) = utCampusNeighborhood st"
  "toasts (updateInfoPanel sel st) = toasts st"
  "markers (updateInfoPanel sel st) = markers st"
  by (simp_all add: updateInfoPanel_def split: option.splits)

lemma data_fields_renderLayers:
  "apartments (renderDistanceOverlay (renderNeighborhoods st)) = apartments st"
  "westUniversityNeighborhood (renderDistanceOverlay (renderNeighborhoods st)) = westUniversityNeighborhood st"
  "utCampusNeighborhood (renderDistanceOverlay (renderNeighborhoods st)) = utCampusNeighborhood st"
  "toasts (renderDistanceOverlay (renderNeighborhoods st)) = toasts st"
  "currentPriceFilter (renderDistanceOverlay (renderNeighborhoods st)) = currentPriceFilter st"
  by (simp_all add: renderDistanceOverlay_def renderNeighborhoods_def Let_def)

lemma data_fields_renderMap:
  "apartments (snd (renderMap st)) = apartments st"
  "westUniversityNeighborhood (snd (renderMap st)) = westUniversityNeighborhood st"
  "utCampusNeighborhood (snd (renderMap st)) = utCampusNeighborhood st"
  "toasts (snd (renderMap st)) = toasts st"
  by (simp_all add: renderMap_def Let_def data_fields_renderLayers data_fields_renderMarkers
        data_fields_updateInfoPanel split: sum.splits)

lemma data_fields_showToast:
  "apartments (showToast msg st) = apartments st"
  "westUniversityNeighborhood (showToast msg st) = westUniversityNeighborhood st"
  "utCampusNeighborhood (showToast msg st) = utCampusNeighborhood st"
  "toasts (showToast msg st) = toasts st @ [msg]"
  "markers (showToast msg st) = markers st"
  by (simp_all add: showToast_def requestAnimationFrame_def Let_def)

lemma data_fields_loadDataCatch:
  "apartments (snd (loadDataCatch st)) = apartments st"
  "westUniversityNeighborhood (snd (loadDataCatch st)) = westUniversityNeighborhood st"
  "utCampusNeighborhood (snd (loadDataCatch st)) = utCampusNeighborhood st"
proof -
  obtain r s where rs: "renderMap st = (r, s)" by (cases "renderMap st")
  have s: "apartments s = apartments st"
    "westUniversityNeighborhood s = westUniversityNeighborhood st"
    "utCampusNeighborhood s = utCampusNeighborhood st"
    using data_fields_renderMap[of st] by (simp_all add: rs)
  have c: "snd (loadDataCatch st) = (case r of None \<Rightarrow> showToast loadFailureMessage s | Some e \<Rightarrow> s)"
    by (cases r) (simp_all add: loadDataCatch_def rs)
  show "apartments (snd (loadDataCatch st)) = apartments st"
    "westUniversityNeighborhood (snd (loadDataCatch st)) = westUniversityNeighborhood st"
    "utCampusNeighborhood (snd (loadDataCatch st)) = utCampusNeighborhood st"
    unfolding c by (cases r; simp add: data_fields_showToast s)+
qed

text \<open>
  Claim C9. When the listings fetch fails (the request rejects, the status is not ok, or the
  body does not parse), \<open>loadData\<close> leaves \<open>apartments\<close>, \<open>westUniversityNeighborhood\<close> and
  \<open>utCampusNeighborhood\<close> as they were. On the first load, from \<open>init\<close>, both
  neighborhood fields stay \<open>null\<close> whatever the boundary requests returned.
\<close>

theorem loadData_failure_keeps_data:
  assumes "fetchFailed (fetchApartments net)"
  shows "apartments (snd (loadData net st)) = apartments st
         \<and> westUniversityNeighborhood (snd (loadData net st)) = westUniversityNeighborhood st
         \<and> utCampusNeighborhood (snd (loadData net st)) = utCampusNeighborhood st
         \<and> westUniversityNeighborhood (snd (init net proj)) = None
         \<and> utCampusNeighborhood (snd (init net proj)) = None"
proof -
  have "westUniversityNeighborhood (updateOverlay (newApp proj)) = None"
    "utCampusNeighborhood (updateOverlay (newApp proj)) = None"
    by (simp_all add: updateOverlay_def newApp_def requestAnimationFrame_def Let_def)
  then show ?thesis
    by (simp add: loadData_failed[OF assms] data_fields_loadDataCatch init_def)
qed

lemma listingsDown_boundary:
  "getNeighborhoodData listingsDownNetwork ''UT'' = Inr someBoundary"
  by (simp add: getNeighborhoodData_def listingsDownNetwork_def ok_def)

lemma loadedApp_apartments: "apartments loadedApp = [villas, nueces]"
  by (simp add: loadedApp_def renderMarkers_def newApp_def)

lemma examples_readable: "priceReadable villas" "priceReadable nueces"
  by (simp_all add: priceReadable_def villas_def nueces_def exampleListing_def)

theorem loadData_failure_keeps_data_witness:
  "fetchFailed (fetchApartments listingsDownNetwork)
   \<and> getNeighborhoodData listingsDownNetwork ''UT'' = Inr someBoundary
   \<and> apartments (snd (loadData listingsDownNetwork loadedApp)) = [villas, nueces]
   \<and> westUniversityNeighborhood (snd (init listingsDownNetwork flatProjection)) = None
   \<and> utCampusNeighborhood (snd (init listingsDownNetwork flatProjection)) = None"
proof -
  have h: "fetchFailed (fetchApartments listingsDownNetwork)"
    by (simp add: listingsDownNetwork_def ok_def)
  from loadData_failure_keeps_data[OF h, of loadedApp flatProjection] h
  show ?thesis
    by (simp add: listingsDown_boundary loadedApp_apartments)
qed

lemma renderMap_total:
  assumes "\<forall>a \<in> set (apartments st). priceReadable a"
  shows "\<exists>apts. getFilteredApartments (renderDistanceOverlay (renderNeighborhoods st)) = Inr apts
           \<and> renderMap st =
               (None, updateInfoPanel None
                        (renderMarkers apts (renderDistanceOverlay (renderNeighborhoods st))))"
proof -
  let ?st2 = "renderDistanceOverlay (renderNeighborhoods st)"
  have "\<forall>a \<in> set (apartments ?st2). priceReadable a"
    using assms by (simp add: data_fields_renderLayers)
  then have "\<not> truthy (currentPriceFilter ?st2) \<or> (\<forall>a \<in> set (apartments ?st2). priceReadable a)"
    by blast
  then obtain apts where "getFilteredApartments ?st2 = Inr apts"
    using getFilteredApartments_total by blast
  then show ?thesis by (simp add: renderMap_def Let_def)
qed

lemma renderMap_empty:
  assumes "apartments st = []"
  shows "markers (snd (renderMap st)) = []"
proof -
  have "getFilteredApartments (renderDistanceOverlay (renderNeighborhoods st)) = Inr []"
    using assms by (simp add: getFilteredApartments_def data_fields_renderLayers)
  then show ?thesis
    by (simp add: renderMap_def Let_def data_fields_updateInfoPanel renderMarkers_def)
qed

lemma loadData_failure_general:
  assumes "fetchFailed (fetchApartments net)"
    and "\<forall>a \<in> set (apartments st). priceReadable a"
  shows "fst (loadData net st) = None
         \<and> fst (renderMap st) = None
         \<and> snd (loadData net st) = showToast loadFailureMessage (snd (renderMap st))
         \<and> toasts (snd (loadData net st)) = toasts st @ [loadFailureMessage]
         \<and> (apartments st = [] \<longrightarrow>
               apartments (snd (loadData net st)) = [] \<and> markers (snd (loadData net st)) = [])"
proof -
  obtain apts where "renderMap st =
      (None, updateInfoPanel None (renderMarkers apts (renderDistanceOverlay (renderNeighborhoods st))))"
    using renderMap_total[OF assms(2)] by blast
  then obtain s where rs: "renderMap st = (None, s)" by blast
  have ld: "loadData net st = (None, showToast loadFailureMessage s)"
    by (simp add: loadData_failed[OF assms(1)] loadDataCatch_def rs)
  have t: "toasts s = toasts st"
    using data_fields_renderMap(4)[of st] by (simp add: rs)
  have a: "apartments s = apartments st"
    using data_fields_renderMap(1)[of st] by (simp add: rs)
  have m: "apartments st = [] \<longrightarrow> markers s = []"
    using renderMap_empty[of st] by (simp add: rs)
  show ?thesis
    using t a m by (simp add: ld rs data_fields_showToast)
qed

text \<open>
  Claim C6. When the listings fetch fails and the prices of the listings held so far can be
  read, \<open>loadData\<close> ends without an exception, its render pass has run to the end on the
  unchanged data, and exactly one toast has been added after it. On the first load, from
  \<open>init\<close>, this leaves an application with no listing, no marker and the one toast.
\<close>

theorem loadData_failure_notice:
  assumes "fetchFailed (fetchApartments net)"
    and "\<forall>a \<in> set (apartments st). priceReadable a"
  shows "fst (loadData net st) = None
         \<and> fst (renderMap st) = None
         \<and> snd (loadData net st) = showToast loadFailureMessage (snd (renderMap st))
         \<and> toasts (snd (loadData net st)) = toasts st @ [loadFailureMessage]
         \<and> (apartments st = [] \<longrightarrow>
               apartments (snd (loadData net st)) = [] \<and> markers (snd (loadData net st)) = [])
         \<and> fst (init net proj) = None
         \<and> toasts (snd (init net proj)) = [loadFailureMessage]
         \<and> apartments (snd (init net proj)) = []
         \<and> markers (snd (init net proj)) = []"
proof -
  let ?s0 = "updateOverlay (newApp proj)"
  have s0: "apartments ?s0 = []" "toasts ?s0 = []"
    by (simp_all add: updateOverlay_def newApp_def requestAnimationFrame_def Let_def)
  then have r0: "\<forall>a \<in> set (apartments ?s0). priceReadable a"
    by simp
  note G = loadData_failure_general[OF assms(1) r0]
  from G have "toasts (snd (loadData net ?s0)) = toasts ?s0 @ [loadFailureMessage]"
    by blast
  then have t: "toasts (snd (loadData net ?s0)) = [loadFailureMessage]"
    by (simp only: s0 append_Nil)
  from G s0(1) have "fst (loadData net ?s0) = None
      \<and> apartments (snd (loadData net ?s0)) = [] \<and> markers (snd (loadData net ?s0)) = []"
    by blast
  with t have i: "fst (init net proj) = None
           \<and> toasts (snd (init net proj)) = [loadFailureMessage]
           \<and> apartments (snd (init net proj)) = []
           \<and> markers (snd (init net proj)) = []"
    by (simp only: init_def)
  show ?thesis
    using loadData_failure_general[OF assms] i by blast
qed

theorem loadData_failure_notice_witness:
  "fetchFailed (fetchApartments failingNetwork)
   \<and> apartments loadedApp = [villas, nueces]
   \<and> priceReadable villas \<and> priceReadable nueces
   \<and> fst (loadData failingNetwork loadedApp) = None
   \<and> toasts (snd (loadData failingNetwork loadedApp)) = [loadFailureMessage]
   \<and> apartments (newApp flatProjection) = []
   \<and> fst (loadData failingNetwork (newApp flatProjection)) = None
   \<and> toasts (snd (loadData failingNetwork (newApp flatProjection))) = [loadFailureMessage]
   \<and> apartments (snd (loadData failingNetwork (newApp flatProjection))) = []
   \<and> markers (snd (loadData failingNetwork (newApp flatProjection))) = []
   \<and> toasts (snd (init failingNetwork flatProjection)) = [loadFailureMessage]"
proof -
  have h: "fetchFailed (fetchApartments failingNetwork)"
    by (simp add: failingNetwork_def)
  have r1: "\<forall>a \<in> set (apartments loadedApp). priceReadable a"
    by (simp add: loadedApp_apartments examples_readable)
  have e: "apartments (newApp flatProjection) = []" "toasts (newApp flatProjection) = []"
    by (simp_all add: newApp_def)
  then have r2: "\<forall>a \<in> set (apartments (newApp flatProjection)). priceReadable a"
    by simp
  have t: "toasts loadedApp = []"
    by (simp add: loadedApp_def renderMarkers_def newApp_def)
  note T1 = loadData_failure_notice[OF h r1, of flatProjection]
  note T2 = loadData_failure_notice[OF h r2, of flatProjection]
  from T1 have a1: "fst (loadData failingNetwork loadedApp) = None"
    by blast
  from T1 have "toasts (snd (loadData failingNetwork loadedApp)) = toasts loadedApp @ [loadFailureMessage]"
    by blast
  then have a2: "toasts (snd (loadData failingNetwork loadedApp)) = [loadFailureMessage]"
    by (simp only: t append_Nil)
  from T2 e(1) have b1: "fst (loadData failingNetwork (newApp flatProjection)) = None
      \<and> apartments (snd (loadData failingNetwork (newApp flatProjection))) = []
      \<and> markers (snd (loadData failingNetwork (newApp flatProjection))) = []"
    by blast
  from T2 have "toasts (snd (loadData failingNetwork (newApp flatProjection)))
      = toasts (newApp flatProjection) @ [loadFailureMessage]"
    by blast
  then have b2: "toasts (snd (loadData failingNetwork (newApp flatProjection))) = [loadFailureMessage]"
    by (simp only: e append_Nil)
  from T1 have c: "toasts (snd (init failingNetwork flatProjection)) = [loadFailureMessage]"
    by blast
  from h loadedApp_apartments examples_readable a1 a2 e(1) b1 b2 c
  show ?thesis by blast
qed

end
